theory Spec2Isabelle
  imports Complex_Main "HOL-Library.Sublist" "HOL-Library.Multiset"
begin

section \<open>The Reddit-to-Q&A pipeline of app.py\<close>

text \<open>
  The program is sequential glue around three external services: the Reddit client
  (praw), the generative model (google.generativeai) and pandas/Streamlit. The services
  are inputs of the model: what they answer is a parameter, what app.py does with the
  answer is a definition. An exception is a value: \<open>Inl\<close> of a sum, or the \<open>Raised\<close>
  outcome of the driver. Streamlit calls are events appended to a log.
\<close>

subsection \<open>Exceptions and Streamlit events\<close>

datatype fault =
    PRAWException string
  | ResponseException string
  | ModelAPIError string
  | TypeError string
  | RecursionError string
  | ValueError string
  | IOError string
  | OtherException string

definition nl :: char where
  "nl = CHR 0x0A"

text \<open>
  A Python float: a finite float by its rational value, or one of the three non-finite
  values, which \<open>json.loads\<close> accepts as \<open>NaN\<close>, \<open>Infinity\<close> and \<open>-Infinity\<close>.
\<close>

datatype float_val = Finite rat | NaN | Infinity | MinusInfinity

text \<open>
  The Python values \<open>json.loads\<close> can return: None, bool, int, float, str, list and
  dict (the items in insertion order, keys distinct).
\<close>

datatype pyval =
    PyNone
  | PyBool bool
  | PyInt int
  | PyFloat float_val
  | PyStr string
  | PyList "pyval list"
  | PyDict "(string \<times> pyval) list"

text \<open>
  A pandas DataFrame: the column labels and, row by row, one cell per column; \<open>None\<close> is
  a missing cell (NaN).
\<close>

record table =
  columns :: "pyval list"
  rows :: "pyval option list list"

text \<open>
  What the operator sees, in order. \<open>StProgress i n\<close> is the progress bar set to
  \<open>i / n\<close>. Spinners are transient and leave no event.
\<close>

datatype ui_event =
    StError string
  | StWarning string
  | StSuccess string
  | StProgress nat nat
  | StDataframe table
  | StDownloadButton string string string string

subsection \<open>Content fetcher: get_trending_posts_with_comments\<close>

record comment =
  body :: string
  score :: int

text \<open>
  A submission as praw hands it over. \<open>selftext\<close> is \<open>None\<close> when the attribute is
  absent (Python's None, falsy like the empty string). \<open>comments\<close> is the outcome of
  \<open>post.comments.replace_more(limit=0)\<close> followed by \<open>post.comments.list()\<close>: the
  comments in retrieval order with the "load more" placeholders removed, or the
  exception the client raised.
\<close>

record post =
  title :: string
  selftext :: "string option"
  comments :: "fault + comment list"

text \<open>
  \<open>comments.sort(key=lambda x: x.score, reverse=True)\<close>. Python's list sort is stable,
  also with \<open>reverse=True\<close>: elements with equal keys keep their original order. The
  model inserts each comment, from the last to the first, in front of the first kept
  comment whose score is not larger.
\<close>

fun insert_desc :: "comment \<Rightarrow> comment list \<Rightarrow> comment list" where
  "insert_desc x [] = [x]"
| "insert_desc x (y # ys) =
     (if score x < score y then y # insert_desc x ys else x # y # ys)"

definition sort_desc :: "comment list \<Rightarrow> comment list" where
  "sort_desc cs = foldr insert_desc cs []"

text \<open>\<open>top_comments = comments[:min(10, len(comments))]\<close> on the sorted list.\<close>

definition top_comments :: "comment list \<Rightarrow> comment list" where
  "top_comments cs = (let sorted_cs = sort_desc cs in take (min 10 (length sorted_cs)) sorted_cs)"

text \<open>Python's \<open>str\<close> of a non-negative integer, as the f-string \<open>{i}\<close> renders it.\<close>

definition digit_char :: "nat \<Rightarrow> char" where
  "digit_char d = ''0123456789'' ! d"

fun str_nat :: "nat \<Rightarrow> string" where
  "str_nat n = (if n < 10 then [digit_char n] else str_nat (n div 10) @ [digit_char (n mod 10)])"

declare str_nat.simps [simp del]

text \<open>
  The loop \<open>for i, comment in enumerate(top_comments, 1)\<close>, appending one line per
  comment to \<open>formatted_output\<close>.
\<close>

fun comment_lines :: "nat \<Rightarrow> comment list \<Rightarrow> string \<Rightarrow> string" where
  "comment_lines i [] formatted_output = formatted_output"
| "comment_lines i (c # cs) formatted_output =
     comment_lines (Suc i) cs
       (formatted_output @ ''Comment '' @ str_nat i @ '': '' @ body c @ [nl])"

text \<open>\<open>post.selftext if post.selftext else '[No body text]'\<close>.\<close>

definition body_text :: "string option \<Rightarrow> string" where
  "body_text st = (case st of
       None \<Rightarrow> ''[No body text]''
     | Some s \<Rightarrow> (if s \<noteq> [] then s else ''[No body text]''))"

definition format_post :: "post \<Rightarrow> comment list \<Rightarrow> string" where
  "format_post p cs =
     (let formatted_output = ''Title: '' @ title p @ [nl];
          formatted_output = formatted_output @ ''Post: '' @ body_text (selftext p) @ [nl]
      in comment_lines 1 (top_comments cs) formatted_output)"

text \<open>
  The body of the \<open>try\<close> block after the listing: one bundle per post, in listing
  order; the first exception leaves the loop and \<open>all_posts_data\<close> is dropped.
\<close>

fun fetch_loop :: "post list \<Rightarrow> string list \<Rightarrow> fault + string list" where
  "fetch_loop [] all_posts_data = Inr all_posts_data"
| "fetch_loop (p # ps) all_posts_data =
     (case comments p of
        Inl e \<Rightarrow> Inl e
      | Inr cs \<Rightarrow> fetch_loop ps (all_posts_data @ [format_post p cs]))"

text \<open>
  The Reddit service: from the three credentials, the subreddit name and the limit to
  the listing \<open>list(subreddit.top(time_filter="day", limit=num_posts))\<close>, or the
  exception raised on the way (invalid credentials surface as a ResponseException).
\<close>

type_synonym reddit_service =
  "string \<Rightarrow> string \<Rightarrow> string \<Rightarrow> string \<Rightarrow> nat \<Rightarrow> fault + post list"

text \<open>The three \<open>except\<close> clauses, in the source's order, each ending in \<open>return None\<close>.\<close>

fun fetch_error_message :: "fault \<Rightarrow> string" where
  "fetch_error_message (PRAWException m) = ''PRAW Error: '' @ m"
| "fetch_error_message (ResponseException m) =
     ''ResponseException: '' @ m @ ''. Please check your Reddit API credentials.''"
| "fetch_error_message (ModelAPIError m) = ''An unexpected error occurred: '' @ m"
| "fetch_error_message (TypeError m) = ''An unexpected error occurred: '' @ m"
| "fetch_error_message (RecursionError m) = ''An unexpected error occurred: '' @ m"
| "fetch_error_message (ValueError m) = ''An unexpected error occurred: '' @ m"
| "fetch_error_message (IOError m) = ''An unexpected error occurred: '' @ m"
| "fetch_error_message (OtherException m) = ''An unexpected error occurred: '' @ m"

definition get_trending_posts_with_comments ::
  "reddit_service \<Rightarrow> string \<Rightarrow> string \<Rightarrow> string \<Rightarrow> string \<Rightarrow> nat \<Rightarrow> ui_event list
     \<Rightarrow> string list option \<times> ui_event list" where
  "get_trending_posts_with_comments reddit reddit_client_id reddit_client_secret
       reddit_user_agent subreddit_name num_posts ui =
     (case reddit reddit_client_id reddit_client_secret reddit_user_agent subreddit_name num_posts of
        Inl e \<Rightarrow> (None, ui @ [StError (fetch_error_message e)])
      | Inr top_posts \<Rightarrow>
          (case fetch_loop top_posts [] of
             Inl e \<Rightarrow> (None, ui @ [StError (fetch_error_message e)])
           | Inr all_posts_data \<Rightarrow> (Some all_posts_data, ui)))"

subsection \<open>Q&A transformer: convert_to_qa\<close>

text \<open>
  The generative model: from the API key and the prompt to \<open>response.text\<close>, or the
  exception raised by the call (a transport or authentication fault).
\<close>

type_synonym model_service = "string \<Rightarrow> string \<Rightarrow> fault + string"

text \<open>
  The three outcomes of \<open>json.loads\<close> on a text: the decoded value; the exception
  \<open>json.JSONDecodeError\<close>, which it raises on a text it finds malformed; or another
  exception, such as RecursionError on brackets nested too deep or ValueError on an
  integer of more than 4300 digits. The decoder is an input of the model. With its
  default settings it also decodes the non-standard literals \<open>NaN\<close>, \<open>Infinity\<close> and
  \<open>-Infinity\<close>.
\<close>

datatype decoded = Decoded pyval | JSONDecodeError | DecoderRaises fault

type_synonym json_decoder = "string \<Rightarrow> decoded"

definition make_prompt :: "string \<Rightarrow> string" where
  "make_prompt information =
     ''Raw_data : ====================''  @ [nl] @ '' '' @ information @ [nl]
       @ ''===================='' @ [nl]"

text \<open>
  Only \<open>json.JSONDecodeError\<close> is caught: an exception of the model call, and any other
  exception of the decoder, leaves the function. On a JSONDecodeError the function
  reports it and returns Python's None.
\<close>

definition convert_to_qa ::
  "model_service \<Rightarrow> json_decoder \<Rightarrow> string \<Rightarrow> string \<Rightarrow> ui_event list
     \<Rightarrow> (fault + pyval) \<times> ui_event list" where
  "convert_to_qa generate_content json_loads gemini_api_key information ui =
     (let prompt = make_prompt information in
      case generate_content gemini_api_key prompt of
        Inl e \<Rightarrow> (Inl e, ui)
      | Inr response_text \<Rightarrow>
          (case json_loads response_text of
             Decoded qa_pairs \<Rightarrow> (Inr qa_pairs, ui)
           | JSONDecodeError \<Rightarrow>
               (Inr PyNone,
                ui @ [StError ''Error: Unable to parse JSON response from Gemini API''])
           | DecoderRaises e \<Rightarrow> (Inl e, ui)))"

subsection \<open>Result aggregator: save_to_excel\<close>

text \<open>
  pandas is an input of the model as well: the DataFrame constructor, the writer of the
  spreadsheet file (\<open>Some e\<close> when writing raises) and the CSV serialiser.
\<close>

record pandas =
  DataFrame :: "pyval list \<Rightarrow> fault + table"
  to_excel :: "table \<Rightarrow> string \<Rightarrow> fault option"
  to_csv :: "table \<Rightarrow> string"

text \<open>\<open>flat_data = [item for sublist in qa_data for item in sublist]\<close>.\<close>

definition flat_data :: "pyval list list \<Rightarrow> pyval list" where
  "flat_data qa_data = [item. sub_list \<leftarrow> qa_data, item \<leftarrow> sub_list]"

definition save_to_excel ::
  "pandas \<Rightarrow> pyval list list \<Rightarrow> string \<Rightarrow> ui_event list \<Rightarrow> (fault + table) \<times> ui_event list" where
  "save_to_excel pd qa_data filename ui =
     (case DataFrame pd (flat_data qa_data) of
        Inl e \<Rightarrow> (Inl e, ui)
      | Inr df \<Rightarrow>
          (case to_excel pd df filename of
             Some e \<Rightarrow> (Inl e, ui)
           | None \<Rightarrow> (Inr df, ui @ [StSuccess (''Data saved to '' @ filename)])))"

text \<open>
  The frame pandas builds from a list of dicts: one column per key, in the order in
  which the keys first appear, one row per dict, a missing key giving a missing cell.
\<close>

fun first_seen :: "string list \<Rightarrow> string list \<Rightarrow> string list" where
  "first_seen [] seen = seen"
| "first_seen (k # ks) seen = first_seen ks (if k \<in> set seen then seen else seen @ [k])"

fun dict_items :: "pyval \<Rightarrow> (string \<times> pyval) list" where
  "dict_items (PyDict kvs) = kvs"
| "dict_items _ = []"

definition records_frame :: "pyval list \<Rightarrow> table" where
  "records_frame records =
     (let cols = first_seen (concat (map (\<lambda>r. map fst (dict_items r)) records)) []
      in \<lparr> columns = map PyStr cols,
           rows = map (\<lambda>r. map (\<lambda>c. map_of (dict_items r) c) cols) records \<rparr>)"

subsection \<open>Pipeline driver: main\<close>

text \<open>Python's truth value of a decoded value, as \<open>if qa_pairs:\<close> tests it.\<close>

fun truthy :: "pyval \<Rightarrow> bool" where
  "truthy PyNone = False"
| "truthy (PyBool b) = b"
| "truthy (PyInt n) = (n \<noteq> 0)"
| "truthy (PyFloat x) = (x \<noteq> Finite 0)"
| "truthy (PyStr s) = (s \<noteq> [])"
| "truthy (PyList xs) = (xs \<noteq> [])"
| "truthy (PyDict kvs) = (kvs \<noteq> [])"

text \<open>
  What \<open>list.extend\<close> iterates over: the elements of a list, the keys of a dict, the
  characters of a string; any other value is not iterable and raises TypeError (the
  message is written without its quotation marks).
\<close>

fun py_iter :: "pyval \<Rightarrow> fault + pyval list" where
  "py_iter (PyList xs) = Inr xs"
| "py_iter (PyDict kvs) = Inr (map (\<lambda>kv. PyStr (fst kv)) kvs)"
| "py_iter (PyStr s) = Inr (map (\<lambda>c. PyStr [c]) s)"
| "py_iter PyNone = Inl (TypeError ''NoneType object is not iterable'')"
| "py_iter (PyBool b) = Inl (TypeError ''bool object is not iterable'')"
| "py_iter (PyInt n) = Inl (TypeError ''int object is not iterable'')"
| "py_iter (PyFloat x) = Inl (TypeError ''float object is not iterable'')"

record driver_state =
  all_qa_pairs :: "pyval list"
  ui :: "ui_event list"

text \<open>
  Lines 102 to 106: what the driver does with the value \<open>convert_to_qa\<close> returned for
  post \<open>i\<close> (0-based) of \<open>n\<close>. \<open>Inl\<close> is an exception leaving \<open>main\<close>.
\<close>

definition handle_qa_pairs :: "nat \<Rightarrow> nat \<Rightarrow> pyval \<Rightarrow> driver_state \<Rightarrow> fault + driver_state" where
  "handle_qa_pairs n i qa_pairs st =
     (if truthy qa_pairs then
        (case py_iter qa_pairs of
           Inl e \<Rightarrow> Inl e
         | Inr items \<Rightarrow>
             Inr (st\<lparr> all_qa_pairs := all_qa_pairs st @ items,
                      ui := ui st @ [StProgress (i + 1) n] \<rparr>))
      else
        Inr (st\<lparr> ui := ui st @
               [StWarning (''Failed to convert post '' @ str_nat (i + 1) @ '' to Q&A format.''),
                StProgress (i + 1) n] \<rparr>))"

datatype outcome = Finished | Raised fault

text \<open>
  The loop \<open>for i, post_content in enumerate(reddit_content)\<close>. An exception stops the
  loop; the state is what it was when the exception was raised.
\<close>

fun convert_loop ::
  "model_service \<Rightarrow> json_decoder \<Rightarrow> string \<Rightarrow> nat \<Rightarrow> nat \<Rightarrow> string list \<Rightarrow> driver_state
     \<Rightarrow> outcome \<times> driver_state" where
  "convert_loop generate_content json_loads gemini_api_key n i [] st = (Finished, st)"
| "convert_loop generate_content json_loads gemini_api_key n i (post_content # rest) st =
     (case convert_to_qa generate_content json_loads gemini_api_key post_content (ui st) of
        (Inl e, ui1) \<Rightarrow> (Raised e, st\<lparr> ui := ui1 \<rparr>)
      | (Inr qa_pairs, ui1) \<Rightarrow>
          (case handle_qa_pairs n i qa_pairs (st\<lparr> ui := ui1 \<rparr>) of
             Inl e \<Rightarrow> (Raised e, st\<lparr> ui := ui1 \<rparr>)
           | Inr st2 \<Rightarrow>
               convert_loop generate_content json_loads gemini_api_key n (Suc i) rest st2))"

text \<open>Lines 108 to 123: aggregation, display and download, or the report of no records.\<close>

definition aggregate_stage :: "pandas \<Rightarrow> driver_state \<Rightarrow> outcome \<times> driver_state" where
  "aggregate_stage pd st =
     (if all_qa_pairs st \<noteq> [] then
        (case save_to_excel pd [all_qa_pairs st] ''reddit_qa.xlsx'' (ui st) of
           (Inl e, ui1) \<Rightarrow> (Raised e, st\<lparr> ui := ui1 \<rparr>)
         | (Inr df, ui1) \<Rightarrow>
             (let csv = to_csv pd df in
              (Finished,
               st\<lparr> ui := ui1 @
                 [StDataframe df,
                  StDownloadButton ''Download data as CSV'' csv ''reddit_qa.csv'' ''text/csv''] \<rparr>)))
      else (Finished, st\<lparr> ui := ui st @ [StError ''No Q&A pairs were generated.''] \<rparr>))"

record services =
  reddit_api :: reddit_service
  model_api :: model_service
  json_api :: json_decoder
  pandas_api :: pandas

record inputs =
  reddit_client_id :: string
  reddit_client_secret :: string
  reddit_user_agent :: string
  gemini_api_key :: string
  subreddit :: string
  num_posts :: nat
  start_scraping :: bool

definition main :: "services \<Rightarrow> inputs \<Rightarrow> outcome \<times> driver_state" where
  "main sv inp =
     (let st0 = \<lparr> all_qa_pairs = [], ui = [] \<rparr> in
      if \<not> start_scraping inp then (Finished, st0)
      else if reddit_client_id inp = [] \<or> reddit_client_secret inp = []
              \<or> reddit_user_agent inp = [] \<or> gemini_api_key inp = [] \<or> subreddit inp = []
      then (Finished, st0\<lparr> ui := [StError ''Please fill in all the required fields in the sidebar.''] \<rparr>)
      else
        (case get_trending_posts_with_comments (reddit_api sv) (reddit_client_id inp)
                (reddit_client_secret inp) (reddit_user_agent inp) (subreddit inp)
                (num_posts inp) [] of
           (Some reddit_content, ui1) \<Rightarrow>
             (if reddit_content \<noteq> [] then
                (let n = length reddit_content;
                     st1 = \<lparr> all_qa_pairs = [],
                             ui = ui1 @ [StSuccess (''Retrieved '' @ str_nat n @ '' posts from r/''
                                                      @ subreddit inp @ ''.''),
                                         StProgress 0 1] \<rparr>
                 in case convert_loop (model_api sv) (json_api sv) (gemini_api_key inp)
                           n 0 reddit_content st1 of
                      (Raised e, st2) \<Rightarrow> (Raised e, st2)
                    | (Finished, st2) \<Rightarrow> aggregate_stage (pandas_api sv) st2)
              else (Finished, st0\<lparr> ui := ui1 @ [StError (''No posts found in r/'' @ subreddit inp)] \<rparr>))
         | (None, ui1) \<Rightarrow>
             (Finished, st0\<lparr> ui := ui1 @ [StError (''No posts found in r/'' @ subreddit inp)] \<rparr>)))"

subsection \<open>Well-shaped records and the flat aggregator\<close>

text \<open>
  A QA record as the system instruction asks for it: a dict with exactly the two keys
  question and answer, in either order, both values strings.
\<close>

fun qa_record :: "pyval \<Rightarrow> bool" where
  "qa_record (PyDict [(k1, PyStr q), (k2, PyStr a)]) =
     ((k1 = ''question'' \<and> k2 = ''answer'') \<or> (k1 = ''answer'' \<and> k2 = ''question''))"
| "qa_record _ = False"

text \<open>
  The aggregator in the words of the specification: accept a flat ordered sequence of
  records and build the table from it, with no wrapper to flatten.
\<close>

definition aggregate_flat ::
  "pandas \<Rightarrow> pyval list \<Rightarrow> string \<Rightarrow> ui_event list \<Rightarrow> (fault + table) \<times> ui_event list" where
  "aggregate_flat pd records filename evs =
     (case DataFrame pd records of
        Inl e \<Rightarrow> (Inl e, evs)
      | Inr df \<Rightarrow>
          (case to_excel pd df filename of
             Some e \<Rightarrow> (Inl e, evs)
           | None \<Rightarrow> (Inr df, evs @ [StSuccess (''Data saved to '' @ filename)])))"

subsection \<open>Sample services and inputs\<close>

text \<open>
  Small stand-ins for the external services, for running the pipeline on concrete
  inputs: a listing of posts, a model that answers by bundle, a decoder that knows the
  few texts the model answers with, and pandas with a settable write fault.
\<close>

definition sample_comments :: "comment list" where
  "sample_comments =
     [\<lparr>body = ''first'', score = 3\<rparr>, \<lparr>body = ''second'', score = 7\<rparr>,
      \<lparr>body = ''third'', score = 3\<rparr>]"

definition sample_post :: post where
  "sample_post = \<lparr>title = ''Ask'', selftext = Some ''Why?'', comments = Inr sample_comments\<rparr>"

definition link_post :: post where
  "link_post = \<lparr>title = ''Link'', selftext = Some [], comments = Inr []\<rparr>"

definition broken_post :: post where
  "broken_post = \<lparr>title = ''Gone'', selftext = None, comments = Inl (OtherException ''timeout'')\<rparr>"

definition sample_reddit :: "post list \<Rightarrow> reddit_service" where
  "sample_reddit posts cid secret agent name n = Inr (take n posts)"

definition qa1 :: pyval where
  "qa1 = PyDict [(''question'', PyStr ''Q1''), (''answer'', PyStr ''A1'')]"

definition qa2 :: pyval where
  "qa2 = PyDict [(''answer'', PyStr ''A2''), (''question'', PyStr ''Q2'')]"

text \<open>
  Two texts \<open>json.loads\<close> answers with an exception other than JSONDecodeError: 2000
  opening brackets, which are not JSON, and a one-element list holding an integer of
  4301 digits, which is.
\<close>

definition deep_text :: string where
  "deep_text = replicate 2000 (CHR ''['')"

definition huge_int_text :: string where
  "huge_int_text = ''[1'' @ replicate 4300 (CHR ''0'') @ '']''"

definition sample_loads :: json_decoder where
  \<open>sample_loads t =
     (if length t = 2000 \<and> t = deep_text
        then DecoderRaises (RecursionError ''maximum recursion depth exceeded'')
      else if length t = 4303 \<and> t = huge_int_text
        then DecoderRaises (ValueError ''Exceeds the limit (4300 digits) for integer string conversion'')
      else if t = ''[{"question": "Q1", "answer": "A1"}]'' then Decoded (PyList [qa1])
      else if t = ''[]'' then Decoded (PyList [])
      else if t = ''5'' then Decoded (PyInt 5)
      else if t = ''2.5'' then Decoded (PyFloat (Finite (5 / 2)))
      else if t = ''NaN'' then Decoded (PyFloat NaN)
      else if t = ''["a", "b"]'' then Decoded (PyList [PyStr ''a'', PyStr ''b''])
      else if t = ''{"question": "Q1", "answer": "A1"}'' then Decoded qa1
      else JSONDecodeError)\<close>

definition sample_model :: model_service where
  \<open>sample_model key prompt =
     (if prompt = make_prompt ''A'' then Inr ''[{"question": "Q1", "answer": "A1"}]''
      else if prompt = make_prompt ''B'' then Inr ''Sorry, no JSON''
      else if prompt = make_prompt ''C'' then Inl (ModelAPIError ''503'')
      else if prompt = make_prompt ''D'' then Inr ''5''
      else if prompt = make_prompt ''F'' then Inr deep_text
      else if prompt = make_prompt ''G'' then Inr ''NaN''
      else Inr ''[]'')\<close>

definition const_model :: "string \<Rightarrow> model_service" where
  "const_model reply key prompt = Inr reply"

definition sample_pandas :: "fault option \<Rightarrow> pandas" where
  "sample_pandas write_fault =
     \<lparr> DataFrame = (\<lambda>records. Inr (records_frame records)),
       to_excel = (\<lambda>df filename. write_fault),
       to_csv = (\<lambda>df. ''question,answer'') \<rparr>"

definition st0 :: driver_state where
  "st0 = \<lparr> all_qa_pairs = [], ui = [] \<rparr>"

definition sample_services :: "model_service \<Rightarrow> fault option \<Rightarrow> services" where
  "sample_services model write_fault =
     \<lparr> reddit_api = sample_reddit [sample_post],
       model_api = model,
       json_api = sample_loads,
       pandas_api = sample_pandas write_fault \<rparr>"

definition sample_inputs :: inputs where
  "sample_inputs =
     \<lparr> reddit_client_id = ''id'', reddit_client_secret = ''secret'',
       reddit_user_agent = ''agent'', gemini_api_key = ''k'', subreddit = ''python'',
       num_posts = 10, start_scraping = True \<rparr>"


section \<open>Properties\<close>

subsection \<open>Ranking of the kept comments\<close>

lemma length_insert_desc: "length (insert_desc x ys) = Suc (length ys)"
  by (induction ys) auto

lemma mset_insert_desc: "mset (insert_desc x ys) = add_mset x (mset ys)"
  by (induction ys) auto

lemma set_insert_desc: "set (insert_desc x ys) = insert x (set ys)"
  by (induction ys) auto

lemma sorted_insert_desc:
  "sorted_wrt (\<lambda>a b. score b \<le> score a) ys
    \<Longrightarrow> sorted_wrt (\<lambda>a b. score b \<le> score a) (insert_desc x ys)"
  by (induction ys) (auto simp: set_insert_desc)

lemma filter_insert_desc_other:
  "score x \<noteq> k \<Longrightarrow>
     filter (\<lambda>c. score c = k) (insert_desc x ys) = filter (\<lambda>c. score c = k) ys"
  by (induction ys) auto

lemma filter_insert_desc_same:
  "score x = k \<Longrightarrow>
     filter (\<lambda>c. score c = k) (insert_desc x ys) = x # filter (\<lambda>c. score c = k) ys"
  by (induction ys) auto

lemma length_sort_desc: "length (sort_desc cs) = length cs"
  by (induction cs) (auto simp: sort_desc_def length_insert_desc)

lemma mset_sort_desc: "mset (sort_desc cs) = mset cs"
  by (induction cs) (auto simp: sort_desc_def mset_insert_desc)

lemma sorted_sort_desc: "sorted_wrt (\<lambda>a b. score b \<le> score a) (sort_desc cs)"
proof (induction cs)
  case Nil
  show ?case by (simp add: sort_desc_def)
next
  case (Cons c cs)
  have "sort_desc (c # cs) = insert_desc c (sort_desc cs)"
    by (simp add: sort_desc_def)
  with Cons show ?case
    by (simp add: sorted_insert_desc)
qed

lemma sort_desc_stable:
  "filter (\<lambda>c. score c = k) (sort_desc cs) = filter (\<lambda>c. score c = k) cs"
proof (induction cs)
  case Nil
  show ?case by (simp add: sort_desc_def)
next
  case (Cons c cs)
  have step: "sort_desc (c # cs) = insert_desc c (sort_desc cs)"
    by (simp add: sort_desc_def)
  show ?case
  proof (cases "score c = k")
    case True
    with Cons step show ?thesis
      by (simp add: filter_insert_desc_same)
  next
    case False
    with Cons step show ?thesis
      by (simp add: filter_insert_desc_other)
  qed
qed

lemma top_comments_take: "top_comments cs = take 10 (sort_desc cs)"
  by (simp add: top_comments_def Let_def min_def)

lemma prefix_filter_take: "prefix (filter P (take n xs)) (filter P xs)"
proof -
  have "filter P xs = filter P (take n xs) @ filter P (drop n xs)"
    by (metis append_take_drop_id filter_append)
  then show ?thesis
    by (metis prefixI)
qed

text \<open>
  C1. The comments kept for a bundle are at most 10, they are in descending order of
  score, and comments of equal score stand in their retrieval order: for every score,
  the kept comments of that score are an initial segment of the retrieved comments of
  that score. The kept list is as long as the cut allows and holds retrieved comments
  only.
\<close>

theorem top_comments_ranked:
  "length (top_comments cs) \<le> 10
   \<and> length (top_comments cs) = min 10 (length cs)
   \<and> sorted_wrt (\<lambda>a b. score b \<le> score a) (top_comments cs)
   \<and> prefix (filter (\<lambda>c. score c = k) (top_comments cs)) (filter (\<lambda>c. score c = k) cs)
   \<and> mset (top_comments cs) \<subseteq># mset cs"
proof -
  have sorted: "sorted_wrt (\<lambda>a b. score b \<le> score a) (top_comments cs)"
    unfolding top_comments_take using sorted_sort_desc by (rule sorted_wrt_take)
  have "prefix (filter (\<lambda>c. score c = k) (take 10 (sort_desc cs)))
          (filter (\<lambda>c. score c = k) (sort_desc cs))"
    by (rule prefix_filter_take)
  then have stable: "prefix (filter (\<lambda>c. score c = k) (top_comments cs))
          (filter (\<lambda>c. score c = k) cs)"
    by (simp add: top_comments_take sort_desc_stable)
  have "mset (take 10 (sort_desc cs)) \<subseteq># mset (sort_desc cs)"
    by (metis append_take_drop_id mset_subset_eq_add_left mset_append)
  then have sub: "mset (top_comments cs) \<subseteq># mset cs"
    by (simp add: top_comments_take mset_sort_desc)
  have len: "length (top_comments cs) = min 10 (length cs)"
    by (simp add: top_comments_take length_sort_desc min.commute)
  from sorted stable sub len show ?thesis
    by simp
qed

subsection \<open>Rendering and failure of the fetcher\<close>

lemma comment_lines_acc: "comment_lines i cs out = out @ comment_lines i cs []"
proof (induction cs arbitrary: i out)
  case Nil
  show ?case by simp
next
  case (Cons c cs)
  have "comment_lines i (c # cs) out
        = comment_lines (Suc i) cs (out @ ''Comment '' @ str_nat i @ '': '' @ body c @ [nl])"
    by simp
  also have "\<dots> = (out @ ''Comment '' @ str_nat i @ '': '' @ body c @ [nl]) @ comment_lines (Suc i) cs []"
    by (rule Cons.IH)
  also have "\<dots> = out @ comment_lines (Suc i) cs ([] @ ''Comment '' @ str_nat i @ '': '' @ body c @ [nl])"
    using Cons.IH [of "Suc i" "[] @ ''Comment '' @ str_nat i @ '': '' @ body c @ [nl]"] by simp
  finally show ?case by simp
qed

text \<open>
  C8. A post whose body text is absent or empty is rendered with the marker
  \<open>[No body text]\<close> in the body position; a post with a non-empty body is rendered
  with the body itself. In both cases the bundle is the title line, the body line and
  the numbered lines of the kept comments.
\<close>

theorem format_post_body:
  "(selftext p = None \<or> selftext p = Some [] \<longrightarrow>
      format_post p cs = ''Title: '' @ title p @ [nl] @ ''Post: [No body text]'' @ [nl]
                           @ comment_lines 1 (top_comments cs) [])
   \<and> (\<forall>s. selftext p = Some s \<and> s \<noteq> [] \<longrightarrow>
      format_post p cs = ''Title: '' @ title p @ [nl] @ ''Post: '' @ s @ [nl]
                           @ comment_lines 1 (top_comments cs) [])"
proof -
  have shape: "format_post p cs = ''Title: '' @ title p @ [nl] @ ''Post: '' @ body_text (selftext p) @ [nl]
                  @ comment_lines 1 (top_comments cs) []"
    unfolding format_post_def Let_def by (subst comment_lines_acc) simp
  show ?thesis
    unfolding shape by (auto simp: body_text_def)
qed

theorem format_post_body_witness:
  "selftext link_post = Some []
   \<and> format_post link_post [] = ''Title: Link'' @ [nl] @ ''Post: [No body text]'' @ [nl]
   \<and> selftext sample_post = Some ''Why?''
   \<and> format_post sample_post sample_comments
       = ''Title: Ask'' @ [nl] @ ''Post: Why?'' @ [nl] @ ''Comment 1: second'' @ [nl]
           @ ''Comment 2: first'' @ [nl] @ ''Comment 3: third'' @ [nl]"
  using format_post_body [of link_post "[]"] format_post_body [of sample_post sample_comments]
  by (simp add: link_post_def sample_post_def sample_comments_def top_comments_def sort_desc_def
      str_nat.simps digit_char_def)

lemma fetch_loop_fault:
  "\<exists>p\<in>set ps. isl (comments p) \<Longrightarrow> \<exists>e. fetch_loop ps acc = Inl e"
  by (induction ps arbitrary: acc) (auto split: sum.splits)

lemma fetch_loop_ok:
  "\<forall>p\<in>set ps. \<not> isl (comments p) \<Longrightarrow>
     fetch_loop ps acc = Inr (acc @ map (\<lambda>p. format_post p (projr (comments p))) ps)"
  by (induction ps arbitrary: acc) (auto split: sum.splits)

text \<open>
  C5. When the listing fails, or the comments of any post of the listing fail, the
  fetcher returns None and reports one error: the bundles built before the fault are
  not returned.
\<close>

theorem fetch_failure_returns_nothing:
  assumes "isl (reddit cid secret agent name n)
           \<or> (\<exists>p\<in>set (projr (reddit cid secret agent name n)). isl (comments p))"
  shows "\<exists>e. get_trending_posts_with_comments reddit cid secret agent name n evs
              = (None, evs @ [StError (fetch_error_message e)])"
proof (cases "reddit cid secret agent name n")
  case (Inl e)
  then show ?thesis
    by (auto simp: get_trending_posts_with_comments_def)
next
  case (Inr posts)
  with assms have "\<exists>p\<in>set posts. isl (comments p)" by simp
  then obtain e where "fetch_loop posts [] = Inl e"
    using fetch_loop_fault by blast
  with Inr show ?thesis
    by (auto simp: get_trending_posts_with_comments_def)
qed

theorem fetch_failure_returns_nothing_witness:
  "(\<exists>p\<in>set (projr (sample_reddit [sample_post, broken_post] ''id'' ''secret'' ''agent'' ''python'' 10)).
       isl (comments p))
   \<and> fst (get_trending_posts_with_comments (sample_reddit [sample_post, broken_post])
            ''id'' ''secret'' ''agent'' ''python'' 10 []) = None"
proof -
  have h: "\<exists>p\<in>set (projr (sample_reddit [sample_post, broken_post] ''id'' ''secret'' ''agent'' ''python'' 10)).
       isl (comments p)"
    by (simp add: sample_reddit_def broken_post_def)
  then have "isl (sample_reddit [sample_post, broken_post] ''id'' ''secret'' ''agent'' ''python'' 10)
      \<or> (\<exists>p\<in>set (projr (sample_reddit [sample_post, broken_post] ''id'' ''secret'' ''agent'' ''python'' 10)).
       isl (comments p))" by (rule disjI2)
  from fetch_failure_returns_nothing
         [where reddit = "sample_reddit [sample_post, broken_post]" and cid = "''id''"
            and secret = "''secret''" and agent = "''agent''" and name = "''python''"
            and n = 10 and evs = "[]", OF this] h
  show ?thesis
    by auto
qed

lemma fetch_success_complete:
  assumes "get_trending_posts_with_comments reddit cid secret agent name n evs = (Some bundles, evs')"
  shows "\<exists>posts. reddit cid secret agent name n = Inr posts
           \<and> (\<forall>p\<in>set posts. \<not> isl (comments p))
           \<and> bundles = map (\<lambda>p. format_post p (projr (comments p))) posts \<and> evs' = evs"
proof (cases "reddit cid secret agent name n")
  case (Inl e)
  with assms show ?thesis by (simp add: get_trending_posts_with_comments_def)
next
  case (Inr posts)
  show ?thesis
  proof (cases "\<exists>p\<in>set posts. isl (comments p)")
    case True
    then obtain e where "fetch_loop posts [] = Inl e" using fetch_loop_fault by blast
    with Inr assms show ?thesis by (simp add: get_trending_posts_with_comments_def)
  next
    case False
    then have "fetch_loop posts [] = Inr ([] @ map (\<lambda>p. format_post p (projr (comments p))) posts)"
      using fetch_loop_ok by blast
    with Inr assms False show ?thesis by (auto simp: get_trending_posts_with_comments_def)
  qed
qed


subsection \<open>The driver loop\<close>

lemma convert_loop_append:
  "convert_loop gen loads key n i pre st = (Finished, st1) \<Longrightarrow>
     convert_loop gen loads key n i (pre @ rest) st
       = convert_loop gen loads key n (i + length pre) rest st1"
proof (induction pre arbitrary: i st)
  case Nil
  then show ?case by simp
next
  case (Cons b pre)
  show ?case
  proof (cases "convert_to_qa gen loads key b (ui st)")
    case (Pair r ui1)
    show ?thesis
    proof (cases r)
      case (Inl e)
      with Pair Cons.prems show ?thesis by simp
    next
      case (Inr qa_pairs)
      show ?thesis
      proof (cases "handle_qa_pairs n i qa_pairs (st\<lparr>ui := ui1\<rparr>)")
        case (Inl e)
        with Pair Inr Cons.prems show ?thesis by simp
      next
        case st2: (Inr st2)
        with Pair Inr Cons.prems
        have "convert_loop gen loads key n (Suc i) pre st2 = (Finished, st1)" by simp
        then have "convert_loop gen loads key n (Suc i) (pre @ rest) st2
                   = convert_loop gen loads key n (Suc i + length pre) rest st1"
          by (rule Cons.IH)
        with Pair Inr st2 show ?thesis by simp
      qed
    qed
  qed
qed

lemma handle_qa_pairs_grows:
  "handle_qa_pairs n i v st = Inr st2 \<Longrightarrow> prefix (all_qa_pairs st) (all_qa_pairs st2)"
  by (auto simp: handle_qa_pairs_def split: if_splits sum.splits)

lemma convert_loop_grows:
  "prefix (all_qa_pairs st) (all_qa_pairs (snd (convert_loop gen loads key n i bs st)))"
proof (induction bs arbitrary: i st)
  case Nil
  show ?case by simp
next
  case (Cons b bs)
  show ?case
  proof (cases "convert_to_qa gen loads key b (ui st)")
    case (Pair r ui1)
    show ?thesis
    proof (cases r)
      case (Inl e)
      with Pair show ?thesis by simp
    next
      case (Inr qa_pairs)
      show ?thesis
      proof (cases "handle_qa_pairs n i qa_pairs (st\<lparr>ui := ui1\<rparr>)")
        case (Inl e)
        with Pair Inr show ?thesis by simp
      next
        case st2: (Inr st2)
        then have "prefix (all_qa_pairs st) (all_qa_pairs st2)"
          using handle_qa_pairs_grows by fastforce
        moreover have "prefix (all_qa_pairs st2)
            (all_qa_pairs (snd (convert_loop gen loads key n (Suc i) bs st2)))"
          by (rule Cons.IH)
        ultimately show ?thesis
          using Pair Inr st2 by (auto intro: prefix_order.trans)
      qed
    qed
  qed
qed

lemma convert_to_qa_malformed:
  "gen key (make_prompt b) = Inr reply \<Longrightarrow> loads reply = JSONDecodeError \<Longrightarrow>
     convert_to_qa gen loads key b evs
       = (Inr PyNone, evs @ [StError ''Error: Unable to parse JSON response from Gemini API''])"
  by (simp add: convert_to_qa_def)

lemma convert_to_qa_parsed:
  "gen key (make_prompt b) = Inr reply \<Longrightarrow> loads reply = Decoded v \<Longrightarrow>
     convert_to_qa gen loads key b evs = (Inr v, evs)"
  by (simp add: convert_to_qa_def)

lemma convert_to_qa_fault:
  "gen key (make_prompt b) = Inl e \<Longrightarrow> convert_to_qa gen loads key b evs = (Inl e, evs)"
  by (simp add: convert_to_qa_def)

lemma run_A: "convert_loop sample_model sample_loads ''k'' 3 0 [''A''] st0
     = (Finished, \<lparr>all_qa_pairs = [qa1], ui = [StProgress 1 3]\<rparr>)"
  by (simp add: sample_model_def sample_loads_def st0_def convert_to_qa_def handle_qa_pairs_def)

text \<open>
  C2, as amended. When \<open>json.loads\<close> rejects the response for a bundle with
  JSONDecodeError, \<open>convert_to_qa\<close> reports the decoding error and returns None, that
  is no records. The driver adds the warning for that post and goes on with the next
  bundle from the state the earlier bundles left: the records accumulated so far stay
  at the front of the final collection.
\<close>

theorem malformed_response_skipped:
  assumes before: "convert_loop gen loads key n i pre st = (Finished, st1)"
    and resp: "gen key (make_prompt b) = Inr reply"
    and bad: "loads reply = JSONDecodeError"
  shows "convert_to_qa gen loads key b evs
           = (Inr PyNone, evs @ [StError ''Error: Unable to parse JSON response from Gemini API''])
       \<and> convert_loop gen loads key n i (pre @ b # rest) st
           = convert_loop gen loads key n (Suc (i + length pre)) rest
               (st1\<lparr> ui := ui st1 @
                  [StError ''Error: Unable to parse JSON response from Gemini API'',
                   StWarning (''Failed to convert post '' @ str_nat (i + length pre + 1)
                                @ '' to Q&A format.''),
                   StProgress (i + length pre + 1) n] \<rparr>)
       \<and> prefix (all_qa_pairs st1)
           (all_qa_pairs (snd (convert_loop gen loads key n i (pre @ b # rest) st)))"
proof -
  let ?st2 = "st1\<lparr> ui := ui st1 @
                  [StError ''Error: Unable to parse JSON response from Gemini API'',
                   StWarning (''Failed to convert post '' @ str_nat (i + length pre + 1)
                                @ '' to Q&A format.''),
                   StProgress (i + length pre + 1) n] \<rparr>"
  have c: "convert_to_qa gen loads key b evs
           = (Inr PyNone, evs @ [StError ''Error: Unable to parse JSON response from Gemini API''])"
    for evs
    using resp bad by (rule convert_to_qa_malformed)
  have "convert_loop gen loads key n i (pre @ b # rest) st
        = convert_loop gen loads key n (i + length pre) (b # rest) st1"
    using before by (rule convert_loop_append)
  also have "\<dots> = convert_loop gen loads key n (Suc (i + length pre)) rest ?st2"
    by (simp add: c handle_qa_pairs_def)
  finally have step: "convert_loop gen loads key n i (pre @ b # rest) st
        = convert_loop gen loads key n (Suc (i + length pre)) rest ?st2" .
  have "prefix (all_qa_pairs ?st2)
          (all_qa_pairs (snd (convert_loop gen loads key n (Suc (i + length pre)) rest ?st2)))"
    by (rule convert_loop_grows)
  then have keep: "prefix (all_qa_pairs st1)
          (all_qa_pairs (snd (convert_loop gen loads key n i (pre @ b # rest) st)))"
    by (simp add: step)
  from c step keep show ?thesis by blast
qed

theorem malformed_response_skipped_witness:
  "convert_loop sample_model sample_loads ''k'' 3 0 [''A''] st0
     = (Finished, \<lparr>all_qa_pairs = [qa1], ui = [StProgress 1 3]\<rparr>)
   \<and> sample_model ''k'' (make_prompt ''B'') = Inr ''Sorry, no JSON''
   \<and> sample_loads ''Sorry, no JSON'' = JSONDecodeError
   \<and> convert_to_qa sample_model sample_loads ''k'' ''B'' []
       = (Inr PyNone, [StError ''Error: Unable to parse JSON response from Gemini API''])
   \<and> prefix [qa1]
       (all_qa_pairs (snd (convert_loop sample_model sample_loads ''k'' 3 0
                             ([''A''] @ ''B'' # [''A'']) st0)))"
proof -
  have h1: "convert_loop sample_model sample_loads ''k'' 3 0 [''A''] st0
     = (Finished, \<lparr>all_qa_pairs = [qa1], ui = [StProgress 1 3]\<rparr>)"
    by (rule run_A)
  have h2: "sample_model ''k'' (make_prompt ''B'') = Inr ''Sorry, no JSON''"
    by (simp add: sample_model_def make_prompt_def)
  have h3: "sample_loads ''Sorry, no JSON'' = JSONDecodeError"
    by (simp add: sample_loads_def)
  note th = malformed_response_skipped
         [where gen = sample_model and loads = sample_loads and key = "''k''" and b = "''B''"
            and reply = "''Sorry, no JSON''" and evs = "[]" and rest = "[''A'']", OF h1 h2 h3]
  have c1: "convert_to_qa sample_model sample_loads ''k'' ''B'' []
       = (Inr PyNone, [StError ''Error: Unable to parse JSON response from Gemini API''])"
    using th [THEN conjunct1] by (simp only: append_Nil)
  have c3: "prefix [qa1]
       (all_qa_pairs (snd (convert_loop sample_model sample_loads ''k'' 3 0
                             ([''A''] @ ''B'' # [''A'']) st0)))"
    using th [THEN conjunct2, THEN conjunct2] by (simp only: driver_state.simps)
  show ?thesis
    by (intro conjI) (fact h1 h2 h3 c1 c3)+
qed

theorem unparseable_response_counterexample:
  "sample_model ''k'' (make_prompt ''F'') = Inr deep_text
   \<and> sample_loads deep_text = DecoderRaises (RecursionError ''maximum recursion depth exceeded'')
   \<and> convert_loop sample_model sample_loads ''k'' 3 0 [''A'', ''F'', ''A''] st0
       = (Raised (RecursionError ''maximum recursion depth exceeded''),
          \<lparr>all_qa_pairs = [qa1], ui = [StProgress 1 3]\<rparr>)
   \<and> sample_model ''k'' (make_prompt ''G'') = Inr ''NaN''
   \<and> sample_loads ''NaN'' = Decoded (PyFloat NaN)
   \<and> convert_loop sample_model sample_loads ''k'' 3 0 [''A'', ''G'', ''A''] st0
       = (Raised (TypeError ''float object is not iterable''),
          \<lparr>all_qa_pairs = [qa1], ui = [StProgress 1 3]\<rparr>)"
proof -
  have deep: "length deep_text = 2000"
    by (simp add: deep_text_def)
  have m1: "sample_model ''k'' (make_prompt ''F'') = Inr deep_text"
    by (simp add: sample_model_def make_prompt_def)
  have l1: "sample_loads deep_text = DecoderRaises (RecursionError ''maximum recursion depth exceeded'')"
    by (simp add: sample_loads_def deep)
  have m2: "sample_model ''k'' (make_prompt ''G'') = Inr ''NaN''"
    by (simp add: sample_model_def make_prompt_def)
  have l2: "sample_loads ''NaN'' = Decoded (PyFloat NaN)"
    by (simp add: sample_loads_def)
  have mA: \<open>sample_model ''k'' (make_prompt ''A'') = Inr ''[{"question": "Q1", "answer": "A1"}]''\<close>
    by (simp add: sample_model_def make_prompt_def)
  have lA: \<open>sample_loads ''[{"question": "Q1", "answer": "A1"}]'' = Decoded (PyList [qa1])\<close>
    by (simp add: sample_loads_def)
  have r1: "convert_loop sample_model sample_loads ''k'' 3 0 [''A'', ''F'', ''A''] st0
       = (Raised (RecursionError ''maximum recursion depth exceeded''),
          \<lparr>all_qa_pairs = [qa1], ui = [StProgress 1 3]\<rparr>)"
    by (simp add: convert_to_qa_def mA lA m1 l1 handle_qa_pairs_def st0_def)
  have r2: "convert_loop sample_model sample_loads ''k'' 3 0 [''A'', ''G'', ''A''] st0
       = (Raised (TypeError ''float object is not iterable''),
          \<lparr>all_qa_pairs = [qa1], ui = [StProgress 1 3]\<rparr>)"
    by (simp add: convert_to_qa_def mA lA m2 l2 handle_qa_pairs_def st0_def)
  show ?thesis
    by (intro conjI) (fact m1 l1 r1 m2 l2 r2)+
qed

text \<open>
  C3. When the model call for a bundle raises, the loop stops with that exception and
  the state is exactly the one the earlier bundles left: their records are intact.
\<close>

theorem model_fault_keeps_records:
  assumes before: "convert_loop gen loads key n i pre st = (Finished, st1)"
    and fault: "gen key (make_prompt b) = Inl e"
  shows "convert_loop gen loads key n i (pre @ b # rest) st = (Raised e, st1)"
proof -
  have "convert_loop gen loads key n i (pre @ b # rest) st
        = convert_loop gen loads key n (i + length pre) (b # rest) st1"
    using before by (rule convert_loop_append)
  also have "\<dots> = (Raised e, st1)"
    using fault by (simp add: convert_to_qa_def)
  finally show ?thesis .
qed

theorem model_fault_keeps_records_witness:
  "convert_loop sample_model sample_loads ''k'' 3 0 [''A''] st0
     = (Finished, \<lparr>all_qa_pairs = [qa1], ui = [StProgress 1 3]\<rparr>)
   \<and> sample_model ''k'' (make_prompt ''C'') = Inl (ModelAPIError ''503'')
   \<and> convert_loop sample_model sample_loads ''k'' 3 0 ([''A''] @ ''C'' # [''A'']) st0
       = (Raised (ModelAPIError ''503''), \<lparr>all_qa_pairs = [qa1], ui = [StProgress 1 3]\<rparr>)"
proof -
  have h1: "convert_loop sample_model sample_loads ''k'' 3 0 [''A''] st0
     = (Finished, \<lparr>all_qa_pairs = [qa1], ui = [StProgress 1 3]\<rparr>)"
    by (rule run_A)
  have h2: "sample_model ''k'' (make_prompt ''C'') = Inl (ModelAPIError ''503'')"
    by (simp add: sample_model_def make_prompt_def)
  note th = model_fault_keeps_records
         [where gen = sample_model and key = "''k''" and b = "''C''" and rest = "[''A'']",
          OF h1 h2]
  show ?thesis
    by (intro conjI) (fact h1 h2 th)+
qed

text \<open>
  C9. When the response decodes to an empty list, the transformer returns it without
  an error, and the driver does with it what it does with the None of a failed
  transform: the warning for that post, the progress step, and no record added.
\<close>

theorem empty_result_treated_as_failure:
  assumes resp: "gen key (make_prompt b) = Inr reply"
    and empty: "loads reply = Decoded (PyList [])"
  shows "convert_to_qa gen loads key b evs = (Inr (PyList []), evs)
       \<and> handle_qa_pairs n i (PyList []) st = handle_qa_pairs n i PyNone st
       \<and> convert_loop gen loads key n i (b # rest) st
           = convert_loop gen loads key n (Suc i) rest
               (st\<lparr> ui := ui st @
                  [StWarning (''Failed to convert post '' @ str_nat (i + 1) @ '' to Q&A format.''),
                   StProgress (i + 1) n] \<rparr>)"
proof -
  have c: "convert_to_qa gen loads key b evs = (Inr (PyList []), evs)" for evs
    using resp empty by (rule convert_to_qa_parsed)
  have h: "handle_qa_pairs n i (PyList []) st = handle_qa_pairs n i PyNone st"
    by (simp add: handle_qa_pairs_def)
  have l: "convert_loop gen loads key n i (b # rest) st
           = convert_loop gen loads key n (Suc i) rest
               (st\<lparr> ui := ui st @
                  [StWarning (''Failed to convert post '' @ str_nat (i + 1) @ '' to Q&A format.''),
                   StProgress (i + 1) n] \<rparr>)"
    by (simp add: c handle_qa_pairs_def)
  from c h l show ?thesis by blast
qed

theorem empty_result_treated_as_failure_witness:
  "sample_model ''k'' (make_prompt ''E'') = Inr ''[]''
   \<and> sample_loads ''[]'' = Decoded (PyList [])
   \<and> convert_to_qa sample_model sample_loads ''k'' ''E'' [] = (Inr (PyList []), [])
   \<and> handle_qa_pairs 1 0 (PyList []) st0 = handle_qa_pairs 1 0 PyNone st0
   \<and> convert_loop sample_model sample_loads ''k'' 1 0 [''E''] st0
       = (Finished, \<lparr>all_qa_pairs = [],
                      ui = [StWarning ''Failed to convert post 1 to Q&A format.'', StProgress 1 1]\<rparr>)"
proof -
  have h1: "sample_model ''k'' (make_prompt ''E'') = Inr ''[]''"
    by (simp add: sample_model_def make_prompt_def)
  have h2: "sample_loads ''[]'' = Decoded (PyList [])"
    by (simp add: sample_loads_def)
  note th = empty_result_treated_as_failure
         [where gen = sample_model and loads = sample_loads and key = "''k''" and b = "''E''"
            and reply = "''[]''" and evs = "[]" and n = 1 and i = 0 and st = st0
            and rest = "[]", OF h1 h2]
  have c1: "convert_to_qa sample_model sample_loads ''k'' ''E'' [] = (Inr (PyList []), [])"
    by (rule th [THEN conjunct1])
  have c2: "handle_qa_pairs 1 0 (PyList []) st0 = handle_qa_pairs 1 0 PyNone st0"
    by (rule th [THEN conjunct2, THEN conjunct1])
  have c3: "convert_loop sample_model sample_loads ''k'' 1 0 [''E''] st0
       = (Finished, \<lparr>all_qa_pairs = [],
                      ui = [StWarning ''Failed to convert post 1 to Q&A format.'', StProgress 1 1]\<rparr>)"
    unfolding th [THEN conjunct2, THEN conjunct2]
    by (simp add: st0_def str_nat.simps digit_char_def)
  show ?thesis
    by (intro conjI) (fact h1 h2 c1 c2 c3)+
qed

subsection \<open>Aggregation\<close>

lemma first_seen_known: "set ks \<subseteq> set seen \<Longrightarrow> first_seen ks seen = seen"
  by (induction ks arbitrary: seen) auto

lemma first_seen_append: "first_seen (ks @ ls) seen = first_seen ls (first_seen ks seen)"
  by (induction ks arbitrary: seen) auto

lemma qa_record_keys:
  "qa_record r \<Longrightarrow>
     map fst (dict_items r) = [''question'', ''answer'']
     \<or> map fst (dict_items r) = [''answer'', ''question'']"
  by (erule qa_record.elims) auto

lemma qa_record_cells:
  "qa_record r \<Longrightarrow>
     (\<exists>q. map_of (dict_items r) ''question'' = Some (PyStr q))
     \<and> (\<exists>a. map_of (dict_items r) ''answer'' = Some (PyStr a))"
  by (erule qa_record.elims) auto

lemma qa_records_columns:
  assumes "list_all qa_record xs" and "xs \<noteq> []"
  shows "first_seen (concat (map (\<lambda>r. map fst (dict_items r)) xs)) []
           = map fst (dict_items (hd xs))"
proof -
  from assms obtain x xs' where xs: "xs = x # xs'" by (cases xs) auto
  let ?keys = "\<lambda>r. map fst (dict_items r)"
  from assms xs have x: "qa_record x" and rest: "list_all qa_record xs'" by auto
  from x have kx: "?keys x = [''question'', ''answer''] \<or> ?keys x = [''answer'', ''question'']"
    by (rule qa_record_keys)
  then have first: "first_seen (?keys x) [] = ?keys x"
    by auto
  have "set (?keys r) \<subseteq> set (?keys x)" if "r \<in> set xs'" for r
  proof -
    from that rest have "qa_record r" by (simp add: list_all_iff)
    from qa_record_keys [OF this] kx show ?thesis by auto
  qed
  then have "(\<Union>r\<in>set xs'. set (?keys r)) \<subseteq> set (?keys x)"
    by blast
  then have "set (concat (map ?keys xs')) \<subseteq> set (?keys x)"
    by (simp only: set_concat set_map image_image)
  then have "first_seen (concat (map ?keys xs')) (?keys x) = ?keys x"
    by (rule first_seen_known)
  with first show ?thesis
    by (simp add: xs first_seen_append)
qed

lemma flat_data_concat: "flat_data qa_data = concat qa_data"
  by (simp add: flat_data_def)

text \<open>
  C7. Flattening the one-element wrapper gives back the list inside, so
  \<open>save_to_excel\<close> on the wrapper does what the flat aggregator does on the list.
\<close>

theorem flatten_wrapper_identity:
  "flat_data [xs] = xs
   \<and> save_to_excel pd [xs] filename evs = aggregate_flat pd xs filename evs"
  by (simp add: flat_data_def save_to_excel_def aggregate_flat_def)

text \<open>
  C6. For a collection of QA records (not empty: line 108 calls the aggregator on a
  non-empty collection only), with pandas building the frame of the records and the
  file written, \<open>save_to_excel\<close> returns a table with exactly the two columns question
  and answer, one row per record in the order of the collection, every cell filled
  with the record's string for that column.
\<close>

theorem save_to_excel_table:
  assumes recs: "list_all qa_record xs" and nonempty: "xs \<noteq> []"
    and frame: "DataFrame pd xs = Inr (records_frame xs)"
    and written: "to_excel pd (records_frame xs) filename = None"
  shows "\<exists>cols df.
           save_to_excel pd [xs] filename evs
             = (Inr df, evs @ [StSuccess (''Data saved to '' @ filename)])
         \<and> (cols = [''question'', ''answer''] \<or> cols = [''answer'', ''question''])
         \<and> columns df = map PyStr cols
         \<and> length (rows df) = length xs
         \<and> rows df = map (\<lambda>r. map (\<lambda>k. map_of (dict_items r) k) cols) xs
         \<and> (\<forall>r\<in>set xs. \<forall>k\<in>set cols. \<exists>s. map_of (dict_items r) k = Some (PyStr s))"
proof -
  let ?cols = "map fst (dict_items (hd xs))"
  let ?df = "records_frame xs"
  have flat: "flat_data [xs] = xs"
    by (simp add: flat_data_def)
  have saved: "save_to_excel pd [xs] filename evs
                 = (Inr ?df, evs @ [StSuccess (''Data saved to '' @ filename)])"
    by (simp add: save_to_excel_def flat frame written)
  have cols_eq: "first_seen (concat (map (\<lambda>r. map fst (dict_items r)) xs)) [] = ?cols"
    using recs nonempty by (rule qa_records_columns)
  from recs nonempty have "qa_record (hd xs)"
    by (cases xs) auto
  then have two: "?cols = [''question'', ''answer''] \<or> ?cols = [''answer'', ''question'']"
    by (rule qa_record_keys)
  have columns: "columns ?df = map PyStr ?cols"
    by (simp add: records_frame_def Let_def cols_eq)
  have rows: "rows ?df = map (\<lambda>r. map (\<lambda>k. map_of (dict_items r) k) ?cols) xs"
    by (simp add: records_frame_def Let_def cols_eq)
  have len: "length (rows ?df) = length xs"
    by (simp add: rows)
  have cells: "\<forall>r\<in>set xs. \<forall>k\<in>set ?cols. \<exists>s. map_of (dict_items r) k = Some (PyStr s)"
  proof (intro ballI)
    fix r k
    assume "r \<in> set xs" and k: "k \<in> set ?cols"
    with recs have "qa_record r" by (simp add: list_all_iff)
    then have "(\<exists>q. map_of (dict_items r) ''question'' = Some (PyStr q))
             \<and> (\<exists>a. map_of (dict_items r) ''answer'' = Some (PyStr a))"
      by (rule qa_record_cells)
    moreover from k two have "k = ''question'' \<or> k = ''answer''" by auto
    ultimately show "\<exists>s. map_of (dict_items r) k = Some (PyStr s)" by blast
  qed
  show ?thesis
  proof (rule exI [of _ ?cols], rule exI [of _ ?df], intro conjI)
    show "save_to_excel pd [xs] filename evs
            = (Inr ?df, evs @ [StSuccess (''Data saved to '' @ filename)])"
      by (rule saved)
    show "?cols = [''question'', ''answer''] \<or> ?cols = [''answer'', ''question'']"
      by (rule two)
    show "columns ?df = map PyStr ?cols" by (rule columns)
    show "length (rows ?df) = length xs" by (rule len)
    show "rows ?df = map (\<lambda>r. map (\<lambda>k. map_of (dict_items r) k) ?cols) xs" by (rule rows)
    show "\<forall>r\<in>set xs. \<forall>k\<in>set ?cols. \<exists>s. map_of (dict_items r) k = Some (PyStr s)"
      by (rule cells)
  qed
qed

theorem save_to_excel_table_witness:
  "list_all qa_record [qa1, qa2]
   \<and> DataFrame (sample_pandas None) [qa1, qa2] = Inr (records_frame [qa1, qa2])
   \<and> to_excel (sample_pandas None) (records_frame [qa1, qa2]) ''reddit_qa.xlsx'' = None
   \<and> save_to_excel (sample_pandas None) [[qa1, qa2]] ''reddit_qa.xlsx'' []
       = (Inr \<lparr> columns = [PyStr ''question'', PyStr ''answer''],
                 rows = [[Some (PyStr ''Q1''), Some (PyStr ''A1'')],
                         [Some (PyStr ''Q2''), Some (PyStr ''A2'')]] \<rparr>,
          [StSuccess ''Data saved to reddit_qa.xlsx''])"
proof -
  have h1: "list_all qa_record [qa1, qa2]"
    by (simp add: qa1_def qa2_def)
  have h2: "[qa1, qa2] \<noteq> []"
    by simp
  have h3: "DataFrame (sample_pandas None) [qa1, qa2] = Inr (records_frame [qa1, qa2])"
    by (simp add: sample_pandas_def)
  have h4: "to_excel (sample_pandas None) (records_frame [qa1, qa2]) ''reddit_qa.xlsx'' = None"
    by (simp add: sample_pandas_def)
  from save_to_excel_table [OF h1 h2 h3 h4, of "[]"]
  obtain cols df where saved: "save_to_excel (sample_pandas None) [[qa1, qa2]] ''reddit_qa.xlsx'' []
             = (Inr df, [] @ [StSuccess (''Data saved to '' @ ''reddit_qa.xlsx'')])"
      and cols: "columns df = map PyStr cols"
      and rows: "rows df = map (\<lambda>r. map (\<lambda>k. map_of (dict_items r) k) cols) [qa1, qa2]"
    by blast
  have "save_to_excel (sample_pandas None) [[qa1, qa2]] ''reddit_qa.xlsx'' []
          = (Inr (records_frame [qa1, qa2]), [StSuccess ''Data saved to reddit_qa.xlsx''])"
    by (simp add: save_to_excel_def flat_data_def h3 h4)
  with saved have df: "df = records_frame [qa1, qa2]"
    by simp
  have "records_frame [qa1, qa2]
          = \<lparr> columns = [PyStr ''question'', PyStr ''answer''],
                 rows = [[Some (PyStr ''Q1''), Some (PyStr ''A1'')],
                         [Some (PyStr ''Q2''), Some (PyStr ''A2'')]] \<rparr>"
    by (simp add: records_frame_def qa1_def qa2_def Let_def)
  with saved df have c: "save_to_excel (sample_pandas None) [[qa1, qa2]] ''reddit_qa.xlsx'' []
       = (Inr \<lparr> columns = [PyStr ''question'', PyStr ''answer''],
                 rows = [[Some (PyStr ''Q1''), Some (PyStr ''A1'')],
                         [Some (PyStr ''Q2''), Some (PyStr ''A2'')]] \<rparr>,
          [StSuccess ''Data saved to reddit_qa.xlsx''])"
    by simp
  show ?thesis
    by (intro conjI) (fact h1 h3 h4 c)+
qed

lemma convert_loop_collects:
  assumes "\<forall>b\<in>set bs. \<exists>reply. gen key (make_prompt b) = Inr reply \<and> loads reply = Decoded (PyList (recs b))"
  shows "fst (convert_loop gen loads key n i bs st) = Finished
       \<and> all_qa_pairs (snd (convert_loop gen loads key n i bs st))
           = all_qa_pairs st @ concat (map recs bs)"
  using assms
proof (induction bs arbitrary: i st)
  case Nil
  show ?case by simp
next
  case (Cons b bs)
  then obtain reply where resp: "gen key (make_prompt b) = Inr reply" "loads reply = Decoded (PyList (recs b))"
    by auto
  have c: "convert_to_qa gen loads key b (ui st) = (Inr (PyList (recs b)), ui st)"
    using resp by (simp add: convert_to_qa_def)
  obtain st2 where h: "handle_qa_pairs n i (PyList (recs b)) st = Inr st2"
      and acc: "all_qa_pairs st2 = all_qa_pairs st @ recs b"
    by (cases "recs b = []") (auto simp: handle_qa_pairs_def)
  from Cons.prems have "\<forall>b\<in>set bs. \<exists>reply. gen key (make_prompt b) = Inr reply
      \<and> loads reply = Decoded (PyList (recs b))" by simp
  then have "fst (convert_loop gen loads key n (Suc i) bs st2) = Finished
       \<and> all_qa_pairs (snd (convert_loop gen loads key n (Suc i) bs st2))
           = all_qa_pairs st2 @ concat (map recs bs)"
    by (rule Cons.IH)
  then show ?case
    by (simp add: c h acc)
qed

text \<open>
  C10, as amended. For a response that \<open>json.loads\<close> decodes, \<open>convert_to_qa\<close> returns the
  decoded value unchanged, whatever its shape; a response on which the decoder raises
  an exception other than JSONDecodeError is not decoded, and the exception leaves
  \<open>convert_to_qa\<close> and the loop. What the driver hands on depends on the value: the
  elements of a non-empty list, unchanged and unchecked, which the aggregator's
  flattening leaves as they are; of a non-empty dict only the keys; and for a non-zero
  number, integer or float, \<open>extend\<close> raises TypeError.
\<close>

theorem parsed_value_unvalidated:
  assumes resp: "gen key (make_prompt b) = Inr reply"
  shows "(\<forall>v. loads reply = Decoded v \<longrightarrow>
            convert_to_qa gen loads key b evs = (Inr v, evs))
       \<and> (\<forall>e. loads reply = DecoderRaises e \<longrightarrow>
            convert_to_qa gen loads key b evs = (Inl e, evs)
            \<and> convert_loop gen loads key n i (b # rest) st = (Raised e, st))
       \<and> (\<forall>xs. xs \<noteq> [] \<longrightarrow>
            handle_qa_pairs n i (PyList xs) st
              = Inr (st\<lparr> all_qa_pairs := all_qa_pairs st @ xs,
                         ui := ui st @ [StProgress (i + 1) n] \<rparr>)
            \<and> flat_data [all_qa_pairs st @ xs] = all_qa_pairs st @ xs)
       \<and> (\<forall>kvs. kvs \<noteq> [] \<longrightarrow>
            handle_qa_pairs n i (PyDict kvs) st
              = Inr (st\<lparr> all_qa_pairs := all_qa_pairs st @ map (\<lambda>kv. PyStr (fst kv)) kvs,
                         ui := ui st @ [StProgress (i + 1) n] \<rparr>))
       \<and> (\<forall>k. k \<noteq> 0 \<longrightarrow>
            handle_qa_pairs n i (PyInt k) st = Inl (TypeError ''int object is not iterable''))
       \<and> (\<forall>x. x \<noteq> Finite 0 \<longrightarrow>
            handle_qa_pairs n i (PyFloat x) st = Inl (TypeError ''float object is not iterable''))"
proof -
  have decoded: "convert_to_qa gen loads key b evs = (Inr v, evs)"
    if "loads reply = Decoded v" for v evs
    using resp that by (simp add: convert_to_qa_def)
  have raised: "convert_to_qa gen loads key b evs = (Inl e, evs)"
    if "loads reply = DecoderRaises e" for e evs
    using resp that by (simp add: convert_to_qa_def)
  have stopped: "convert_loop gen loads key n i (b # rest) st = (Raised e, st)"
    if "loads reply = DecoderRaises e" for e
    by (simp add: raised [OF that])
  have handed: "handle_qa_pairs n i (PyList xs) st
              = Inr (st\<lparr> all_qa_pairs := all_qa_pairs st @ xs,
                         ui := ui st @ [StProgress (i + 1) n] \<rparr>)"
    if "xs \<noteq> []" for xs
    using that by (simp add: handle_qa_pairs_def)
  have flat: "flat_data [all_qa_pairs st @ xs] = all_qa_pairs st @ xs" for xs
    by (simp add: flat_data_def)
  have keys: "handle_qa_pairs n i (PyDict kvs) st
              = Inr (st\<lparr> all_qa_pairs := all_qa_pairs st @ map (\<lambda>kv. PyStr (fst kv)) kvs,
                         ui := ui st @ [StProgress (i + 1) n] \<rparr>)"
    if "kvs \<noteq> []" for kvs
    using that by (simp add: handle_qa_pairs_def)
  have ints: "handle_qa_pairs n i (PyInt k) st = Inl (TypeError ''int object is not iterable'')"
    if "k \<noteq> 0" for k
    using that by (simp add: handle_qa_pairs_def)
  have floats: "handle_qa_pairs n i (PyFloat x) st = Inl (TypeError ''float object is not iterable'')"
    if "x \<noteq> Finite 0" for x
    using that by (simp add: handle_qa_pairs_def)
  show ?thesis
    by (intro conjI allI impI) (erule decoded raised stopped handed keys ints floats | rule flat)+
qed

theorem parsed_value_unvalidated_witness:
  \<open>const_model ''["a", "b"]'' ''k'' (make_prompt ''A'') = Inr ''["a", "b"]''
   \<and> sample_loads ''["a", "b"]'' = Decoded (PyList [PyStr ''a'', PyStr ''b''])
   \<and> convert_to_qa (const_model ''["a", "b"]'') sample_loads ''k'' ''A'' []
       = (Inr (PyList [PyStr ''a'', PyStr ''b'']), [])
   \<and> handle_qa_pairs 1 0 (PyList [PyStr ''a'', PyStr ''b'']) st0
       = Inr \<lparr>all_qa_pairs = [PyStr ''a'', PyStr ''b''], ui = [StProgress 1 1]\<rparr>
   \<and> flat_data [[PyStr ''a'', PyStr ''b'']] = [PyStr ''a'', PyStr ''b'']
   \<and> handle_qa_pairs 1 0 qa1 st0
       = Inr \<lparr>all_qa_pairs = [PyStr ''question'', PyStr ''answer''], ui = [StProgress 1 1]\<rparr>
   \<and> handle_qa_pairs 1 0 (PyInt 5) st0 = Inl (TypeError ''int object is not iterable'')
   \<and> handle_qa_pairs 1 0 (PyFloat (Finite (5 / 2))) st0
       = Inl (TypeError ''float object is not iterable'')
   \<and> const_model huge_int_text ''k'' (make_prompt ''A'') = Inr huge_int_text
   \<and> sample_loads huge_int_text
       = DecoderRaises (ValueError ''Exceeds the limit (4300 digits) for integer string conversion'')
   \<and> convert_loop (const_model huge_int_text) sample_loads ''k'' 1 0 [''A''] st0
       = (Raised (ValueError ''Exceeds the limit (4300 digits) for integer string conversion''),
          st0)\<close>
proof -
  have g: "const_model t ''k'' (make_prompt ''A'') = Inr t" for t
    by (simp add: const_model_def)
  have l1: \<open>sample_loads ''["a", "b"]'' = Decoded (PyList [PyStr ''a'', PyStr ''b''])\<close>
    by (simp add: sample_loads_def)
  have l2: "sample_loads huge_int_text
       = DecoderRaises (ValueError ''Exceeds the limit (4300 digits) for integer string conversion'')"
    by (simp add: sample_loads_def huge_int_text_def)
  note t1 = parsed_value_unvalidated
      [where gen = \<open>const_model ''["a", "b"]''\<close> and loads = sample_loads and key = "''k''"
         and b = "''A''" and evs = "[]" and n = 1 and i = 0 and st = st0, OF g]
  note t2 = parsed_value_unvalidated
      [where gen = "const_model huge_int_text" and loads = sample_loads and key = "''k''"
         and b = "''A''" and evs = "[]" and n = 1 and i = 0 and st = st0 and rest = "[]", OF g]
  have c1: \<open>convert_to_qa (const_model ''["a", "b"]'') sample_loads ''k'' ''A'' []
       = (Inr (PyList [PyStr ''a'', PyStr ''b'']), [])\<close>
    using t1 [THEN conjunct1] l1 by blast
  have c2: "handle_qa_pairs 1 0 (PyList [PyStr ''a'', PyStr ''b'']) st0
       = Inr \<lparr>all_qa_pairs = [PyStr ''a'', PyStr ''b''], ui = [StProgress 1 1]\<rparr>"
    using t1 [THEN conjunct2, THEN conjunct2, THEN conjunct1] by (simp add: st0_def)
  have c3: "flat_data [[PyStr ''a'', PyStr ''b'']] = [PyStr ''a'', PyStr ''b'']"
    using t1 [THEN conjunct2, THEN conjunct2, THEN conjunct1] by (simp add: st0_def)
  have c4: "handle_qa_pairs 1 0 qa1 st0
       = Inr \<lparr>all_qa_pairs = [PyStr ''question'', PyStr ''answer''], ui = [StProgress 1 1]\<rparr>"
    using t1 [THEN conjunct2, THEN conjunct2, THEN conjunct2, THEN conjunct1]
    by (simp add: st0_def qa1_def)
  have c5: "handle_qa_pairs 1 0 (PyInt 5) st0 = Inl (TypeError ''int object is not iterable'')"
    using t1 [THEN conjunct2, THEN conjunct2, THEN conjunct2, THEN conjunct2, THEN conjunct1]
    by simp
  have c6: "handle_qa_pairs 1 0 (PyFloat (Finite (5 / 2))) st0
       = Inl (TypeError ''float object is not iterable'')"
    using t1 [THEN conjunct2, THEN conjunct2, THEN conjunct2, THEN conjunct2, THEN conjunct2]
    by simp
  have c7: "convert_loop (const_model huge_int_text) sample_loads ''k'' 1 0 [''A''] st0
       = (Raised (ValueError ''Exceeds the limit (4300 digits) for integer string conversion''),
          st0)"
    using t2 [THEN conjunct2, THEN conjunct1] l2 by blast
  show ?thesis
    by (intro conjI) (fact g l1 l2 c1 c2 c3 c4 c5 c6 c7)+
qed

theorem number_response_counterexample:
  "sample_loads ''5'' = Decoded (PyInt 5)
   \<and> main (sample_services (const_model ''5'') None) sample_inputs
     = (Raised (TypeError ''int object is not iterable''),
        \<lparr>all_qa_pairs = [],
          ui = [StSuccess ''Retrieved 1 posts from r/python.'', StProgress 0 1]\<rparr>)"
  by (simp add: main_def sample_services_def sample_inputs_def sample_reddit_def sample_post_def
      sample_comments_def get_trending_posts_with_comments_def Let_def
      convert_to_qa_def const_model_def sample_loads_def handle_qa_pairs_def
      str_nat.simps digit_char_def)

text \<open>
  C4, as amended. When writing the spreadsheet file raises, \<open>save_to_excel\<close> raises: it
  returns no table and reports nothing, and the aggregation stage ends with that
  exception in the state it started from, with no table displayed and no download
  offered.
\<close>

theorem write_failure_propagates:
  assumes nonempty: "all_qa_pairs st \<noteq> []"
    and frame: "DataFrame pd (all_qa_pairs st) = Inr df"
    and failed: "to_excel pd df ''reddit_qa.xlsx'' = Some e"
  shows "save_to_excel pd [all_qa_pairs st] ''reddit_qa.xlsx'' (ui st) = (Inl e, ui st)
       \<and> aggregate_stage pd st = (Raised e, st)"
proof -
  have s: "save_to_excel pd [all_qa_pairs st] ''reddit_qa.xlsx'' (ui st) = (Inl e, ui st)"
    using frame failed by (simp add: save_to_excel_def flat_data_def)
  then show ?thesis
    using nonempty by (simp add: aggregate_stage_def)
qed

theorem write_failure_propagates_witness:
  "all_qa_pairs \<lparr>all_qa_pairs = [qa1], ui = [StProgress 1 1]\<rparr> \<noteq> []
   \<and> DataFrame (sample_pandas (Some (IOError ''disk full''))) [qa1] = Inr (records_frame [qa1])
   \<and> to_excel (sample_pandas (Some (IOError ''disk full''))) (records_frame [qa1]) ''reddit_qa.xlsx''
       = Some (IOError ''disk full'')
   \<and> save_to_excel (sample_pandas (Some (IOError ''disk full''))) [[qa1]] ''reddit_qa.xlsx''
         [StProgress 1 1]
       = (Inl (IOError ''disk full''), [StProgress 1 1])
   \<and> aggregate_stage (sample_pandas (Some (IOError ''disk full'')))
         \<lparr>all_qa_pairs = [qa1], ui = [StProgress 1 1]\<rparr>
       = (Raised (IOError ''disk full''), \<lparr>all_qa_pairs = [qa1], ui = [StProgress 1 1]\<rparr>)"
proof -
  let ?st = "\<lparr>all_qa_pairs = [qa1], ui = [StProgress 1 1]\<rparr>"
  let ?pd = "sample_pandas (Some (IOError ''disk full''))"
  have h1: "all_qa_pairs ?st \<noteq> []"
    by simp
  have h2: "DataFrame ?pd (all_qa_pairs ?st) = Inr (records_frame [qa1])"
    by (simp add: sample_pandas_def)
  have h3: "to_excel ?pd (records_frame [qa1]) ''reddit_qa.xlsx'' = Some (IOError ''disk full'')"
    by (simp add: sample_pandas_def)
  from write_failure_propagates [OF h1 h2 h3] h1 h2 h3 show ?thesis
    by simp
qed

theorem write_failure_counterexample:
  \<open>main (sample_services (const_model ''[{"question": "Q1", "answer": "A1"}]'')
            (Some (IOError ''disk full''))) sample_inputs
     = (Raised (IOError ''disk full''),
        \<lparr>all_qa_pairs = [qa1],
          ui = [StSuccess ''Retrieved 1 posts from r/python.'', StProgress 0 1, StProgress 1 1]\<rparr>)\<close>
  by (simp add: main_def sample_services_def sample_inputs_def sample_reddit_def sample_post_def
      sample_comments_def get_trending_posts_with_comments_def Let_def
      convert_to_qa_def const_model_def sample_loads_def handle_qa_pairs_def
      aggregate_stage_def save_to_excel_def flat_data_def sample_pandas_def
      str_nat.simps digit_char_def)

end
